theory Spec2Isabelle
  imports Main
begin

section \<open>The exposed Thing of wotpy (\<^verbatim>\<open>wotpy/wot/exposed/thing.py\<close>)\<close>

text \<open>
  The class \<^verbatim>\<open>ExposedThing\<close> binds the interactions of a Thing to handler functions,
  keeps the values of the properties, and publishes every notification on one stream
  (an Rx \<^verbatim>\<open>Subject\<close>). The model below follows the class method by method. A method
  that mutates \<^verbatim>\<open>self\<close> takes the object and returns the updated one; a method that can
  raise, or whose Future can be rejected, returns a sum whose \<open>Inl\<close> holds the exception.
\<close>

subsection \<open>Python values and exceptions\<close>

text \<open>
  Property values, event payloads and handler arguments are arbitrary Python values.
  \<open>PyObject\<close> stands for an object seen through its attributes.
\<close>

datatype pyval =
    PyNone
  | PyBool bool
  | PyInt int
  | PyStr string
  | PyList "pyval list"
  | PyDict "(string \<times> pyval) list"
  | PyObject "(string \<times> pyval) list"

text \<open>
  The exceptions of the module, each with its message. The module raises
  \<^verbatim>\<open>ValueError\<close>, \<^verbatim>\<open>TypeError\<close> and the plain \<^verbatim>\<open>Exception\<close>;
  \<^verbatim>\<open>KeyError\<close> and \<^verbatim>\<open>AttributeError\<close> are raised by Python itself for a missing
  dictionary key and a missing attribute. \<open>OtherError\<close> (class name, message) is any
  exception of an application handler.
\<close>

datatype exn =
    ValueError string
  | TypeError string
  | KeyError string
  | AttributeError string
  | Exception string
  | OtherError string string

subsection \<open>Interactions and the Thing\<close>

text \<open>
  Modelled from the spec: the classes \<^verbatim>\<open>Property\<close>, \<^verbatim>\<open>Action\<close> and \<^verbatim>\<open>Event\<close> of
  \<^verbatim>\<open>wotpy.td.interaction\<close> are not among the sources. The fields are the keyword
  arguments that \<^verbatim>\<open>add_property\<close>, \<^verbatim>\<open>add_action\<close> and \<^verbatim>\<open>add_event\<close> pass to the
  constructors (the back reference \<^verbatim>\<open>thing\<close> left out); the \<^verbatim>\<open>id\<close> is the name of the
  interaction. Only a Property has the flags \<^verbatim>\<open>writable\<close> and \<^verbatim>\<open>observable\<close>.
\<close>

datatype interaction =
    Property string pyval pyval pyval bool bool
      \<comment> \<open>id, label, description, value_type, writable, observable\<close>
  | Action string pyval pyval pyval pyval
      \<comment> \<open>id, label, description, output, input\<close>
  | Event string pyval pyval pyval
      \<comment> \<open>id, label, description, value_type\<close>

fun interaction_name :: "interaction \<Rightarrow> string" where
  "interaction_name (Property n _ _ _ _ _) = n"
| "interaction_name (Action n _ _ _ _) = n"
| "interaction_name (Event n _ _ _) = n"

text \<open>
  The attribute reads \<^verbatim>\<open>interaction.writable\<close> and \<^verbatim>\<open>interaction.observable\<close>: on an
  object without the attribute Python raises \<^verbatim>\<open>AttributeError\<close>.
\<close>

fun interaction_writable :: "interaction \<Rightarrow> exn + bool" where
  "interaction_writable (Property _ _ _ _ w _) = Inr w"
| "interaction_writable _ = Inl (AttributeError ''writable'')"

fun interaction_observable :: "interaction \<Rightarrow> exn + bool" where
  "interaction_observable (Property _ _ _ _ _ ob) = Inr ob"
| "interaction_observable _ = Inl (AttributeError ''observable'')"

text \<open>
  Modelled from the spec: the class \<^verbatim>\<open>Thing\<close> (the interaction registry) is not among
  the sources. The spec gives it lookup by name, addition and removal of a definition,
  and names that are unique within a Thing. The registry is the list of the
  definitions; adding a definition takes the place of one with the same name, removal
  drops the definition of that name, and neither fails.
\<close>

type_synonym Thing = "interaction list"

definition Thing_find_interaction :: "Thing \<Rightarrow> string \<Rightarrow> interaction option" where
  "Thing_find_interaction t name = find (\<lambda>i. interaction_name i = name) t"

definition Thing_add_interaction :: "Thing \<Rightarrow> interaction \<Rightarrow> Thing" where
  "Thing_add_interaction t i =
     filter (\<lambda>j. interaction_name j \<noteq> interaction_name i) t @ [i]"

definition Thing_remove_interaction :: "Thing \<Rightarrow> string \<Rightarrow> Thing" where
  "Thing_remove_interaction t name = filter (\<lambda>j. interaction_name j \<noteq> name) t"

subsection \<open>Init dictionaries and emitted events\<close>

text \<open>
  Modelled from the spec: the dictionaries of \<^verbatim>\<open>wotpy.wot.dictionaries\<close> are not among
  the sources. An init dictionary has the fields that the \<^verbatim>\<open>add_\<close> methods read.
\<close>

record ThingPropertyInit =
  pi_label :: pyval
  pi_description :: pyval
  pi_value_type :: pyval
  pi_writable :: bool
  pi_observable :: bool
  pi_value :: pyval

record ThingActionInit =
  ai_label :: pyval
  ai_description :: pyval
  ai_output :: pyval
  ai_input :: pyval

record ThingEventInit =
  ei_label :: pyval
  ei_description :: pyval
  ei_value_type :: pyval

text \<open>
  Modelled from the spec: \<^verbatim>\<open>to_dict\<close> and \<^verbatim>\<open>ThingDescription\<close> are not among the
  sources. \<^verbatim>\<open>init.to_dict()\<close> is the serialized definition; it is represented by the init
  dictionary it serializes. \<^verbatim>\<open>ThingDescription.from_thing(thing).to_dict()\<close> is the full
  description of the Thing at the moment of the call; it is represented by the registry
  it is built from.
\<close>

datatype init_dict =
    PropertyInit_to_dict ThingPropertyInit
  | ActionInit_to_dict ThingActionInit
  | EventInit_to_dict ThingEventInit

datatype thing_description = ThingDescription_from_thing Thing

datatype TDChangeType = PROPERTY | ACTION | EVENT

datatype TDChangeMethod = ADD | REMOVE

record PropertyChangeEventInit =
  pc_name :: string
  pc_value :: pyval

record ActionInvocationEventInit =
  inv_action_name :: string
  inv_return_value :: pyval

record ThingDescriptionChangeEventInit =
  td_change_type :: TDChangeType
  td_method :: TDChangeMethod
  td_name :: string
  td_data :: "init_dict option"
  td_description :: "thing_description option"

text \<open>
  Modelled from the spec: the event classes of \<^verbatim>\<open>wotpy.wot.events\<close> and the names of
  \<^verbatim>\<open>DefaultThingEvent\<close> are not among the sources. An emitted event carries a name and
  a payload (\<^verbatim>\<open>item.name\<close>, \<^verbatim>\<open>item.data\<close>); the three built-in events carry the
  names of \<^verbatim>\<open>DefaultThingEvent\<close>, a user event the name it was emitted with. The
  spec gives the names "propertychange" and "descriptionchange"; it does not give the
  name of an action invocation, and no property below depends on it.
\<close>

datatype emitted_event =
    EmittedEvent string pyval
  | PropertyChangeEmittedEvent PropertyChangeEventInit
  | ThingDescriptionChangeEmittedEvent ThingDescriptionChangeEventInit
  | ActionInvocationEmittedEvent ActionInvocationEventInit

definition PROPERTY_CHANGE :: string where
  "PROPERTY_CHANGE = ''propertychange''"

definition ACTION_INVOCATION :: string where
  "ACTION_INVOCATION = ''actioninvocation''"

definition DESCRIPTION_CHANGE :: string where
  "DESCRIPTION_CHANGE = ''descriptionchange''"

fun event_name :: "emitted_event \<Rightarrow> string" where
  "event_name (EmittedEvent n _) = n"
| "event_name (PropertyChangeEmittedEvent _) = PROPERTY_CHANGE"
| "event_name (ThingDescriptionChangeEmittedEvent _) = DESCRIPTION_CHANGE"
| "event_name (ActionInvocationEmittedEvent _) = ACTION_INVOCATION"

text \<open>
  Modelled from the spec: \<^verbatim>\<open>item.data.name\<close>, the name attribute of the payload. The payload of a property
  change has it, the payload of a description change has it, the payload of an action
  invocation has \<^verbatim>\<open>action_name\<close> and \<^verbatim>\<open>return_value\<close> only, and the payload of a user
  event has it when it is an object with that attribute.
\<close>

fun pyval_name :: "pyval \<Rightarrow> exn + pyval" where
  "pyval_name (PyObject attrs) =
     (case map_of attrs ''name'' of
        None \<Rightarrow> Inl (AttributeError ''name'')
      | Some v \<Rightarrow> Inr v)"
| "pyval_name _ = Inl (AttributeError ''name'')"

fun event_data_name :: "emitted_event \<Rightarrow> exn + pyval" where
  "event_data_name (EmittedEvent _ payload) = pyval_name payload"
| "event_data_name (PropertyChangeEmittedEvent init) = Inr (PyStr (pc_name init))"
| "event_data_name (ThingDescriptionChangeEmittedEvent init) = Inr (PyStr (td_name init))"
| "event_data_name (ActionInvocationEmittedEvent _) = Inl (AttributeError ''name'')"

subsection \<open>Handlers and the state of an ExposedThing\<close>

datatype HandlerKeys = RETRIEVE_PROPERTY | UPDATE_PROPERTY | INVOKE_ACTION | OBSERVE

fun HandlerKeys_value :: "HandlerKeys \<Rightarrow> string" where
  "HandlerKeys_value RETRIEVE_PROPERTY = ''retrieve_property''"
| "HandlerKeys_value UPDATE_PROPERTY = ''update_property''"
| "HandlerKeys_value INVOKE_ACTION = ''invoke_action''"
| "HandlerKeys_value OBSERVE = ''observe''"

text \<open>
  A handler is a callable: one of the three default handlers (bound methods of the
  object, which read and write its state), or a function of the application. The
  application's function is opaque to the class; it is modelled by the outcome of its
  Future for the positional and keyword arguments of the call, \<open>Inr\<close> for a value and
  \<open>Inl\<close> for an exception (raised, or set on the Future). A Python function is true as
  a condition, which is what \<^verbatim>\<open>_get_handler\<close> tests.
\<close>

datatype handler =
    Default_retrieve_property_handler
  | Default_update_property_handler
  | Default_invoke_action_handler
  | User_handler "pyval list \<Rightarrow> (string \<times> pyval) list \<Rightarrow> exn + pyval"

text \<open>
  The fields of the object. \<^verbatim>\<open>_interaction_states\<close> has the single key
  \<^verbatim>\<open>PROPERTY_VALUES\<close>; the field is the dictionary under that key, from an interaction
  to the value of the property. The keys of that dictionary and of the handler tables
  are interaction objects; an object is identified with its definition, the names
  being unique within a Thing. \<^verbatim>\<open>_events_stream\<close> is the Subject; the field is the
  sequence of the events passed to \<^verbatim>\<open>on_next\<close>, oldest first. The servient is used by
  \<^verbatim>\<open>expose\<close> and \<^verbatim>\<open>destroy\<close> only and is left out.
\<close>

record ExposedThing =
  thing :: Thing
  interaction_states :: "interaction \<rightharpoonup> pyval"
  handlers_global :: "HandlerKeys \<rightharpoonup> handler"
  handlers :: "HandlerKeys \<rightharpoonup> (interaction \<rightharpoonup> handler)"
  events_stream :: "emitted_event list"

definition ExposedThing_init :: "Thing \<Rightarrow> ExposedThing" where
  "ExposedThing_init t =
     \<lparr> thing = t,
       interaction_states = Map.empty,
       handlers_global =
         [RETRIEVE_PROPERTY \<mapsto> Default_retrieve_property_handler,
          UPDATE_PROPERTY \<mapsto> Default_update_property_handler,
          INVOKE_ACTION \<mapsto> Default_invoke_action_handler],
       handlers =
         [RETRIEVE_PROPERTY \<mapsto> Map.empty,
          UPDATE_PROPERTY \<mapsto> Map.empty,
          INVOKE_ACTION \<mapsto> Map.empty],
       events_stream = [] \<rparr>"

definition on_next :: "ExposedThing \<Rightarrow> emitted_event \<Rightarrow> ExposedThing" where
  "on_next self item = self\<lparr>events_stream := events_stream self @ [item]\<rparr>"

definition set_property_value :: "ExposedThing \<Rightarrow> interaction \<Rightarrow> pyval \<Rightarrow> ExposedThing" where
  "set_property_value self prop v =
     self\<lparr>interaction_states := (interaction_states self)(prop \<mapsto> v)\<rparr>"

definition get_property_value :: "ExposedThing \<Rightarrow> interaction \<Rightarrow> pyval" where
  "get_property_value self prop =
     (case interaction_states self prop of None \<Rightarrow> PyNone | Some v \<Rightarrow> v)"

definition set_handler ::
  "ExposedThing \<Rightarrow> HandlerKeys \<Rightarrow> handler \<Rightarrow> interaction option \<Rightarrow> ExposedThing" where
  "set_handler self handler_type h interaction =
     (case interaction of
        None \<Rightarrow> self\<lparr>handlers_global := (handlers_global self)(handler_type \<mapsto> h)\<rparr>
      | Some i \<Rightarrow>
          (case handlers self handler_type of
             None \<Rightarrow> self\<lparr>handlers_global := (handlers_global self)(handler_type \<mapsto> h)\<rparr>
           | Some d \<Rightarrow> self\<lparr>handlers := (handlers self)(handler_type \<mapsto> d(i \<mapsto> h))\<rparr>))"

definition get_handler ::
  "ExposedThing \<Rightarrow> HandlerKeys \<Rightarrow> interaction option \<Rightarrow> exn + handler" where
  "get_handler self handler_type interaction =
     (let interaction_handler =
        (case handlers self handler_type of
           None \<Rightarrow> None
         | Some d \<Rightarrow> (case interaction of None \<Rightarrow> None | Some i \<Rightarrow> d i))
      in case interaction_handler of
           Some h \<Rightarrow> Inr h
         | None \<Rightarrow>
             (case handlers_global self handler_type of
                None \<Rightarrow> Inl (KeyError (HandlerKeys_value handler_type))
              | Some g \<Rightarrow> Inr g))"

text \<open>
  \<^verbatim>\<open>_find_interaction\<close>: an interaction is an object, true as a condition, so the test
  \<^verbatim>\<open>not interaction\<close> holds exactly when the lookup returned \<^verbatim>\<open>None\<close>.
\<close>

definition find_interaction :: "ExposedThing \<Rightarrow> string \<Rightarrow> exn + interaction" where
  "find_interaction self name =
     (case Thing_find_interaction (thing self) name of
        None \<Rightarrow> Inl (ValueError (''Interaction not found: '' @ name))
      | Some interaction \<Rightarrow> Inr interaction)"

subsection \<open>The default handlers and the call of a handler\<close>

text \<open>
  The result of a coroutine (or of a handler) is the outcome of its Future together
  with the object after the call: \<open>Inr v\<close> when the Future resolves with \<open>v\<close>, \<open>Inl e\<close>
  when the call raises \<open>e\<close> or the Future is rejected with \<open>e\<close>. A call is taken as a
  whole, from the call to the moment its Future settles.
\<close>

type_synonym result = "(exn + pyval) \<times> ExposedThing"

definition default_retrieve_property_handler :: "ExposedThing \<Rightarrow> string \<Rightarrow> result" where
  "default_retrieve_property_handler self property_name =
     (case find_interaction self property_name of
        Inl e \<Rightarrow> (Inl e, self)
      | Inr prop \<Rightarrow> (Inr (get_property_value self prop), self))"

definition default_update_property_handler ::
  "ExposedThing \<Rightarrow> string \<Rightarrow> pyval \<Rightarrow> result" where
  "default_update_property_handler self property_name v =
     (case find_interaction self property_name of
        Inl e \<Rightarrow> (Inl e, self)
      | Inr prop \<Rightarrow> (Inr PyNone, set_property_value self prop v))"

definition default_invoke_action_handler :: "ExposedThing \<Rightarrow> result" where
  "default_invoke_action_handler self = (Inl (Exception ''Undefined action handler''), self)"

text \<open>
  \<^verbatim>\<open>handler(*args, **kwargs)\<close>. The methods of the class call a handler with positional
  arguments only, except \<^verbatim>\<open>invoke_action\<close>, which passes on what it was given. A
  default handler called with other arguments than its parameters raises
  \<^verbatim>\<open>TypeError\<close>; the default retrieve and update handlers are called with the name as
  first positional argument by every method of the class that reaches them.
\<close>

fun call_handler ::
  "handler \<Rightarrow> pyval list \<Rightarrow> (string \<times> pyval) list \<Rightarrow> ExposedThing \<Rightarrow> result" where
  "call_handler Default_retrieve_property_handler args kwargs self =
     (case (args, kwargs) of
        ([PyStr property_name], []) \<Rightarrow> default_retrieve_property_handler self property_name
      | _ \<Rightarrow> (Inl (TypeError ''_default_retrieve_property_handler()''), self))"
| "call_handler Default_update_property_handler args kwargs self =
     (case (args, kwargs) of
        ([PyStr property_name, v], []) \<Rightarrow> default_update_property_handler self property_name v
      | _ \<Rightarrow> (Inl (TypeError ''_default_update_property_handler()''), self))"
| "call_handler Default_invoke_action_handler args kwargs self =
     (case (args, kwargs) of
        ([], []) \<Rightarrow> default_invoke_action_handler self
      | _ \<Rightarrow> (Inl (TypeError ''_default_invoke_action_handler()''), self))"
| "call_handler (User_handler f) args kwargs self = (f args kwargs, self)"

subsection \<open>Reading, writing, invoking\<close>

definition read_property :: "ExposedThing \<Rightarrow> string \<Rightarrow> result" where
  "read_property self name =
     (case find_interaction self name of
        Inl e \<Rightarrow> (Inl e, self)
      | Inr interaction \<Rightarrow>
          (case get_handler self RETRIEVE_PROPERTY (Some interaction) of
             Inl e \<Rightarrow> (Inl e, self)
           | Inr h \<Rightarrow> call_handler h [PyStr name] [] self))"

definition write_property :: "ExposedThing \<Rightarrow> string \<Rightarrow> pyval \<Rightarrow> result" where
  "write_property self name v =
     (case find_interaction self name of
        Inl e \<Rightarrow> (Inl e, self)
      | Inr interaction \<Rightarrow>
          (case interaction_writable interaction of
             Inl e \<Rightarrow> (Inl e, self)
           | Inr w \<Rightarrow>
               if \<not> w then (Inl (TypeError ''Property is non-writable''), self)
               else
                 (case get_handler self UPDATE_PROPERTY (Some interaction) of
                    Inl e \<Rightarrow> (Inl e, self)
                  | Inr h \<Rightarrow>
                      (case call_handler h [PyStr name, v] [] self of
                         (Inl e, self') \<Rightarrow> (Inl e, self')
                       | (Inr _, self') \<Rightarrow>
                           (Inr PyNone,
                            on_next self'
                              (PropertyChangeEmittedEvent
                                 \<lparr>pc_name = name, pc_value = v\<rparr>))))))"

definition invoke_action ::
  "ExposedThing \<Rightarrow> string \<Rightarrow> pyval list \<Rightarrow> (string \<times> pyval) list \<Rightarrow> result" where
  "invoke_action self name args kwargs =
     (case find_interaction self name of
        Inl e \<Rightarrow> (Inl e, self)
      | Inr interaction \<Rightarrow>
          (case get_handler self INVOKE_ACTION (Some interaction) of
             Inl e \<Rightarrow> (Inl e, self)
           | Inr h \<Rightarrow>
               (case call_handler h args kwargs self of
                  (Inl e, self') \<Rightarrow> (Inl e, self')
                | (Inr r, self') \<Rightarrow>
                    (Inr r,
                     on_next self'
                       (ActionInvocationEmittedEvent
                          \<lparr>inv_action_name = name, inv_return_value = r\<rparr>)))))"

subsection \<open>Subscriptions\<close>

text \<open>
  What a subscriber gets back: \<^verbatim>\<open>Observable.throw(e)\<close>, which fails every
  subscription made on it with \<open>e\<close>, or the events stream under a filter. A filter
  that raises is \<open>Inl\<close>; the event is accepted when the filter is \<open>Inr True\<close>.
\<close>

datatype observable =
    Observable_throw exn
  | Events_stream_filter "emitted_event \<Rightarrow> exn + bool"

definition event_filter :: "string \<Rightarrow> emitted_event \<Rightarrow> exn + bool" where
  "event_filter name item = Inr (event_name item = name)"

definition property_change_filter :: "string \<Rightarrow> emitted_event \<Rightarrow> exn + bool" where
  "property_change_filter name item =
     (if event_name item = PROPERTY_CHANGE
      then (case event_data_name item of
              Inl e \<Rightarrow> Inl e
            | Inr n \<Rightarrow> Inr (n = PyStr name))
      else Inr False)"

definition td_change_filter :: "emitted_event \<Rightarrow> exn + bool" where
  "td_change_filter item = Inr (event_name item = DESCRIPTION_CHANGE)"

text \<open>
  \<^verbatim>\<open>except ValueError\<close> catches the one exception \<^verbatim>\<open>_find_interaction\<close> raises; any
  other would leave the method.
\<close>

definition on_event :: "ExposedThing \<Rightarrow> string \<Rightarrow> exn + observable" where
  "on_event self name =
     (case find_interaction self name of
        Inl (ValueError _) \<Rightarrow> Inr (Observable_throw (Exception ''Unknown event''))
      | Inl e \<Rightarrow> Inl e
      | Inr _ \<Rightarrow> Inr (Events_stream_filter (event_filter name)))"

definition on_property_change :: "ExposedThing \<Rightarrow> string \<Rightarrow> exn + observable" where
  "on_property_change self name =
     (case find_interaction self name of
        Inl (ValueError _) \<Rightarrow> Inr (Observable_throw (Exception ''Unknown property''))
      | Inl e \<Rightarrow> Inl e
      | Inr interaction \<Rightarrow>
          (case interaction_observable interaction of
             Inl e \<Rightarrow> Inl e
           | Inr ob \<Rightarrow>
               if \<not> ob then Inr (Observable_throw (Exception ''Property is not observable''))
               else Inr (Events_stream_filter (property_change_filter name))))"

definition on_td_change :: "ExposedThing \<Rightarrow> observable" where
  "on_td_change self = Events_stream_filter td_change_filter"

text \<open>A subscription receives the events its filter accepts.\<close>

definition accepts :: "(emitted_event \<Rightarrow> exn + bool) \<Rightarrow> emitted_event \<Rightarrow> bool" where
  "accepts f item = (f item = Inr True)"

subsection \<open>Emitting events, adding and removing interactions\<close>

definition emit_event :: "ExposedThing \<Rightarrow> string \<Rightarrow> pyval \<Rightarrow> result" where
  "emit_event self name payload =
     (case Thing_find_interaction (thing self) name of
        None \<Rightarrow> (Inl (ValueError (''Unknown event: '' @ name)), self)
      | Some _ \<Rightarrow> (Inr PyNone, on_next self (EmittedEvent name payload)))"

definition add_property :: "ExposedThing \<Rightarrow> string \<Rightarrow> ThingPropertyInit \<Rightarrow> ExposedThing" where
  "add_property self name property_init =
     (let prop = Property name (pi_label property_init) (pi_description property_init)
                   (pi_value_type property_init) (pi_writable property_init)
                   (pi_observable property_init);
          self1 = self\<lparr>thing := Thing_add_interaction (thing self) prop\<rparr>;
          self2 = set_property_value self1 prop (pi_value property_init);
          event_data =
            \<lparr>td_change_type = PROPERTY, td_method = ADD, td_name = name,
             td_data = Some (PropertyInit_to_dict property_init),
             td_description = Some (ThingDescription_from_thing (thing self2))\<rparr>
      in on_next self2 (ThingDescriptionChangeEmittedEvent event_data))"

definition remove_property :: "ExposedThing \<Rightarrow> string \<Rightarrow> ExposedThing" where
  "remove_property self name =
     (let self1 = self\<lparr>thing := Thing_remove_interaction (thing self) name\<rparr>;
          event_data =
            \<lparr>td_change_type = PROPERTY, td_method = REMOVE, td_name = name,
             td_data = None, td_description = None\<rparr>
      in on_next self1 (ThingDescriptionChangeEmittedEvent event_data))"

definition add_action :: "ExposedThing \<Rightarrow> string \<Rightarrow> ThingActionInit \<Rightarrow> ExposedThing" where
  "add_action self name action_init =
     (let action = Action name (ai_label action_init) (ai_description action_init)
                     (ai_output action_init) (ai_input action_init);
          self1 = self\<lparr>thing := Thing_add_interaction (thing self) action\<rparr>;
          event_data =
            \<lparr>td_change_type = ACTION, td_method = ADD, td_name = name,
             td_data = Some (ActionInit_to_dict action_init),
             td_description = Some (ThingDescription_from_thing (thing self1))\<rparr>
      in on_next self1 (ThingDescriptionChangeEmittedEvent event_data))"

definition remove_action :: "ExposedThing \<Rightarrow> string \<Rightarrow> ExposedThing" where
  "remove_action self name =
     (let self1 = self\<lparr>thing := Thing_remove_interaction (thing self) name\<rparr>;
          event_data =
            \<lparr>td_change_type = ACTION, td_method = REMOVE, td_name = name,
             td_data = None, td_description = None\<rparr>
      in on_next self1 (ThingDescriptionChangeEmittedEvent event_data))"

definition add_event :: "ExposedThing \<Rightarrow> string \<Rightarrow> ThingEventInit \<Rightarrow> ExposedThing" where
  "add_event self name event_init =
     (let event = Event name (ei_label event_init) (ei_description event_init)
                    (ei_value_type event_init);
          self1 = self\<lparr>thing := Thing_add_interaction (thing self) event\<rparr>;
          event_data =
            \<lparr>td_change_type = EVENT, td_method = ADD, td_name = name,
             td_data = Some (EventInit_to_dict event_init),
             td_description = Some (ThingDescription_from_thing (thing self1))\<rparr>
      in on_next self1 (ThingDescriptionChangeEmittedEvent event_data))"

definition remove_event :: "ExposedThing \<Rightarrow> string \<Rightarrow> ExposedThing" where
  "remove_event self name =
     (let self1 = self\<lparr>thing := Thing_remove_interaction (thing self) name\<rparr>;
          event_data =
            \<lparr>td_change_type = EVENT, td_method = REMOVE, td_name = name,
             td_data = None, td_description = None\<rparr>
      in on_next self1 (ThingDescriptionChangeEmittedEvent event_data))"

subsection \<open>Setting handlers\<close>

text \<open>
  The three public setters differ in the handler type only: with a name, the
  interaction is looked up first (\<^verbatim>\<open>ValueError\<close> when there is none) and the handler
  is stored for it; without one, the handler replaces the global one.
\<close>

definition set_handler_for ::
  "HandlerKeys \<Rightarrow> ExposedThing \<Rightarrow> handler \<Rightarrow> string option \<Rightarrow> result" where
  "set_handler_for handler_type self h name =
     (case name of
        None \<Rightarrow> (Inr PyNone, set_handler self handler_type h None)
      | Some n \<Rightarrow>
          (case find_interaction self n of
             Inl e \<Rightarrow> (Inl e, self)
           | Inr interaction \<Rightarrow>
               (Inr PyNone, set_handler self handler_type h (Some interaction))))"

definition set_action_handler :: "ExposedThing \<Rightarrow> handler \<Rightarrow> string option \<Rightarrow> result" where
  "set_action_handler self action_handler action_name =
     set_handler_for INVOKE_ACTION self action_handler action_name"

definition set_property_read_handler ::
  "ExposedThing \<Rightarrow> handler \<Rightarrow> string option \<Rightarrow> result" where
  "set_property_read_handler self read_handler property_name =
     set_handler_for RETRIEVE_PROPERTY self read_handler property_name"

definition set_property_write_handler ::
  "ExposedThing \<Rightarrow> handler \<Rightarrow> string option \<Rightarrow> result" where
  "set_property_write_handler self write_handler property_name =
     set_handler_for UPDATE_PROPERTY self write_handler property_name"

subsection \<open>The states an ExposedThing can be in\<close>

text \<open>
  The object as constructed, and after any sequence of calls of its public methods
  that change it (the subscription methods change nothing).
\<close>

inductive reachable :: "ExposedThing \<Rightarrow> bool" where
  reachable_init: "reachable (ExposedThing_init t)"
| reachable_read_property: "reachable s \<Longrightarrow> reachable (snd (read_property s name))"
| reachable_write_property: "reachable s \<Longrightarrow> reachable (snd (write_property s name v))"
| reachable_invoke_action: "reachable s \<Longrightarrow> reachable (snd (invoke_action s name args kwargs))"
| reachable_emit_event: "reachable s \<Longrightarrow> reachable (snd (emit_event s name payload))"
| reachable_add_property: "reachable s \<Longrightarrow> reachable (add_property s name property_init)"
| reachable_remove_property: "reachable s \<Longrightarrow> reachable (remove_property s name)"
| reachable_add_action: "reachable s \<Longrightarrow> reachable (add_action s name action_init)"
| reachable_remove_action: "reachable s \<Longrightarrow> reachable (remove_action s name)"
| reachable_add_event: "reachable s \<Longrightarrow> reachable (add_event s name event_init)"
| reachable_remove_event: "reachable s \<Longrightarrow> reachable (remove_event s name)"
| reachable_set_action_handler:
    "reachable s \<Longrightarrow> reachable (snd (set_action_handler s h action_name))"
| reachable_set_property_read_handler:
    "reachable s \<Longrightarrow> reachable (snd (set_property_read_handler s h property_name))"
| reachable_set_property_write_handler:
    "reachable s \<Longrightarrow> reachable (snd (set_property_write_handler s h property_name))"

text \<open>A handler kind is seeded when both handler tables have an entry for it.\<close>

definition seeded :: "ExposedThing \<Rightarrow> HandlerKeys \<Rightarrow> bool" where
  "seeded s k = (handlers_global s k \<noteq> None \<and> handlers s k \<noteq> None)"

section \<open>Properties\<close>

subsection \<open>What a handler call and the registry leave as they are\<close>

lemma call_handler_events:
  "call_handler h args kwargs self = (r, self') \<Longrightarrow> events_stream self' = events_stream self"
  by (cases h)
     (auto simp: default_retrieve_property_handler_def default_update_property_handler_def
        default_invoke_action_handler_def set_property_value_def
        split: list.splits pyval.splits sum.splits prod.splits)

lemma call_handler_tables:
  "call_handler h args kwargs self = (r, self') \<Longrightarrow>
     handlers_global self' = handlers_global self \<and> handlers self' = handlers self
     \<and> thing self' = thing self"
  by (cases h)
     (auto simp: default_retrieve_property_handler_def default_update_property_handler_def
        default_invoke_action_handler_def set_property_value_def
        split: list.splits pyval.splits sum.splits prod.splits)

lemma get_handler_cong:
  "handlers_global s' = handlers_global s \<Longrightarrow> handlers s' = handlers s \<Longrightarrow>
     get_handler s' k i = get_handler s k i"
  by (simp add: get_handler_def split: option.splits)

lemma find_filter_append:
  "find (\<lambda>j. interaction_name j = interaction_name i)
     (filter (\<lambda>j. interaction_name j \<noteq> interaction_name i) t @ [i]) = Some i"
  by (induction t) simp_all

lemma find_after_add:
  "Thing_find_interaction (Thing_add_interaction t i) (interaction_name i) = Some i"
  by (simp add: Thing_find_interaction_def Thing_add_interaction_def find_filter_append)

lemma find_after_remove:
  "Thing_find_interaction (Thing_remove_interaction t name) name = None"
  by (simp add: Thing_find_interaction_def Thing_remove_interaction_def find_None_iff)

subsection \<open>Write, then read\<close>

text \<open>
  Claim C1. Let \<open>P\<close> name a property of the Thing whose writable flag is true, and let
  the update and the retrieve handler resolved for it be the default handlers (no
  override is set). Then \<open>write_property(P, v)\<close> resolves, and \<open>read_property(P)\<close> on
  the object it leaves resolves to \<open>v\<close>, without changing the object.
\<close>

theorem write_then_read_default:
  assumes found: "Thing_find_interaction (thing self) P = Some (Property n l d vt True ob)"
    and upd: "get_handler self UPDATE_PROPERTY (Some (Property n l d vt True ob))
           = Inr Default_update_property_handler"
    and retr: "get_handler self RETRIEVE_PROPERTY (Some (Property n l d vt True ob))
           = Inr Default_retrieve_property_handler"
  shows "fst (write_property self P v) = Inr PyNone
       \<and> read_property (snd (write_property self P v)) P
           = (Inr v, snd (write_property self P v))"
proof -
  let ?pr = "Property n l d vt True ob"
  let ?self' = "on_next (set_property_value self ?pr v)
                  (PropertyChangeEmittedEvent \<lparr>pc_name = P, pc_value = v\<rparr>)"
  have w: "write_property self P v = (Inr PyNone, ?self')"
    using found upd
    by (simp add: write_property_def find_interaction_def
        default_update_property_handler_def)
  have "get_handler ?self' RETRIEVE_PROPERTY (Some ?pr)
          = get_handler self RETRIEVE_PROPERTY (Some ?pr)"
    by (rule get_handler_cong) (simp_all add: on_next_def set_property_value_def)
  with retr have r: "get_handler ?self' RETRIEVE_PROPERTY (Some ?pr)
      = Inr Default_retrieve_property_handler" by simp
  have t: "thing ?self' = thing self"
    by (simp add: on_next_def set_property_value_def)
  have "read_property ?self' P = (Inr v, ?self')"
    using found r t
    by (simp add: read_property_def find_interaction_def
        default_retrieve_property_handler_def get_property_value_def)
       (simp add: on_next_def set_property_value_def)
  with w show ?thesis by simp
qed

theorem write_then_read_default_witness:
  "fst (write_property (ExposedThing_init [Property ''temp'' PyNone PyNone PyNone True True])
          ''temp'' (PyInt 20)) = Inr PyNone
   \<and> read_property
       (snd (write_property (ExposedThing_init [Property ''temp'' PyNone PyNone PyNone True True])
          ''temp'' (PyInt 20))) ''temp''
     = (Inr (PyInt 20),
        snd (write_property (ExposedThing_init [Property ''temp'' PyNone PyNone PyNone True True])
          ''temp'' (PyInt 20)))"
  by (rule write_then_read_default [where n = "''temp''" and l = PyNone and d = PyNone
        and vt = PyNone and ob = True])
     (simp_all add: ExposedThing_init_def Thing_find_interaction_def get_handler_def)

subsection \<open>Writing a property that is not writable\<close>

text \<open>
  Claim C2. Let \<open>P\<close> name a property whose writable flag is false. Then
  \<open>write_property(P, v)\<close> fails with the \<^verbatim>\<open>TypeError\<close> "Property is non-writable"
  (the spec's NotWritableError) and leaves the object as it was: nothing is stored and
  no event is published. The check comes before the handler is resolved: the outcome
  is the same whatever the handler tables hold, also when they hold nothing.
\<close>

theorem write_property_non_writable:
  assumes "Thing_find_interaction (thing self) P = Some (Property n l d vt False ob)"
  shows "write_property self P v = (Inl (TypeError ''Property is non-writable''), self)
       \<and> write_property (self\<lparr>handlers_global := hg, handlers := hs\<rparr>) P v
           = (Inl (TypeError ''Property is non-writable''),
              self\<lparr>handlers_global := hg, handlers := hs\<rparr>)"
  using assms by (simp add: write_property_def find_interaction_def)

theorem write_property_non_writable_witness:
  "write_property (ExposedThing_init [Property ''id'' PyNone PyNone PyNone False True])
      ''id'' (PyInt 1)
     = (Inl (TypeError ''Property is non-writable''),
        ExposedThing_init [Property ''id'' PyNone PyNone PyNone False True])
   \<and> write_property
        ((ExposedThing_init [Property ''id'' PyNone PyNone PyNone False True])
           \<lparr>handlers_global := Map.empty, handlers := Map.empty\<rparr>) ''id'' (PyInt 1)
     = (Inl (TypeError ''Property is non-writable''),
        (ExposedThing_init [Property ''id'' PyNone PyNone PyNone False True])
           \<lparr>handlers_global := Map.empty, handlers := Map.empty\<rparr>)"
  by (rule write_property_non_writable [where n = "''id''" and l = PyNone and d = PyNone
        and vt = PyNone and ob = True])
     (simp add: ExposedThing_init_def Thing_find_interaction_def)

subsection \<open>Resolving a handler\<close>

text \<open>The tables of handlers are changed by the setters only.\<close>

lemma snd_call_handler_tables:
  "handlers_global (snd (call_handler h args kwargs s)) = handlers_global s
   \<and> handlers (snd (call_handler h args kwargs s)) = handlers s"
  using call_handler_tables [of h args kwargs s "fst (call_handler h args kwargs s)"
      "snd (call_handler h args kwargs s)"]
  by simp

lemma read_property_tables:
  "handlers_global (snd (read_property s name)) = handlers_global s
   \<and> handlers (snd (read_property s name)) = handlers s"
  by (simp add: read_property_def snd_call_handler_tables split: sum.splits)

lemma write_property_tables:
  "handlers_global (snd (write_property s name v)) = handlers_global s
   \<and> handlers (snd (write_property s name v)) = handlers s"
proof -
  have "handlers_global (snd (case call_handler h [PyStr name, v] [] s of
           (Inl e, self') \<Rightarrow> (Inl e, self')
         | (Inr _, self') \<Rightarrow> (Inr PyNone, on_next self' ev))) = handlers_global s
      \<and> handlers (snd (case call_handler h [PyStr name, v] [] s of
           (Inl e, self') \<Rightarrow> (Inl e, self')
         | (Inr _, self') \<Rightarrow> (Inr PyNone, on_next self' ev))) = handlers s" for h ev
    using snd_call_handler_tables [of h "[PyStr name, v]" "[]" s]
    by (auto simp: on_next_def split: prod.splits sum.splits)
  then show ?thesis
    by (simp add: write_property_def split: sum.splits)
qed

lemma invoke_action_tables:
  "handlers_global (snd (invoke_action s name args kwargs)) = handlers_global s
   \<and> handlers (snd (invoke_action s name args kwargs)) = handlers s"
proof -
  have "handlers_global (snd (case call_handler h args kwargs s of
           (Inl e, self') \<Rightarrow> (Inl e, self')
         | (Inr r, self') \<Rightarrow> (Inr r, on_next self' (ev r)))) = handlers_global s
      \<and> handlers (snd (case call_handler h args kwargs s of
           (Inl e, self') \<Rightarrow> (Inl e, self')
         | (Inr r, self') \<Rightarrow> (Inr r, on_next self' (ev r)))) = handlers s" for h ev
    using snd_call_handler_tables [of h args kwargs s]
    by (auto simp: on_next_def split: prod.splits sum.splits)
  then show ?thesis
    by (simp add: invoke_action_def split: sum.splits)
qed

lemma emit_event_tables:
  "handlers_global (snd (emit_event s name payload)) = handlers_global s
   \<and> handlers (snd (emit_event s name payload)) = handlers s"
  by (simp add: emit_event_def on_next_def split: option.splits)

lemma add_remove_tables:
  "handlers_global (add_property s name pinit) = handlers_global s"
  "handlers (add_property s name pinit) = handlers s"
  "handlers_global (remove_property s name) = handlers_global s"
  "handlers (remove_property s name) = handlers s"
  "handlers_global (add_action s name ainit) = handlers_global s"
  "handlers (add_action s name ainit) = handlers s"
  "handlers_global (remove_action s name) = handlers_global s"
  "handlers (remove_action s name) = handlers s"
  "handlers_global (add_event s name einit) = handlers_global s"
  "handlers (add_event s name einit) = handlers s"
  "handlers_global (remove_event s name) = handlers_global s"
  "handlers (remove_event s name) = handlers s"
  by (simp_all add: add_property_def remove_property_def add_action_def remove_action_def
      add_event_def remove_event_def on_next_def set_property_value_def Let_def)

lemma set_handler_seeded:
  "seeded s k \<Longrightarrow> seeded (set_handler s kind h i) k"
  by (auto simp: seeded_def set_handler_def split: option.splits)

lemma set_handler_for_seeded:
  "seeded s k \<Longrightarrow> seeded (snd (set_handler_for kind s h name)) k"
  by (auto simp: set_handler_for_def set_handler_seeded split: option.splits sum.splits)

lemma init_seeded: "k \<noteq> OBSERVE \<Longrightarrow> seeded (ExposedThing_init t) k"
  by (cases k) (simp_all add: seeded_def ExposedThing_init_def)

lemma reachable_seeded:
  "reachable s \<Longrightarrow> k \<noteq> OBSERVE \<Longrightarrow> seeded s k"
proof (induction rule: reachable.induct)
  case (reachable_init t)
  then show ?case by (rule init_seeded)
next
  case (reachable_read_property s name)
  then show ?case by (simp add: seeded_def read_property_tables)
next
  case (reachable_write_property s name v)
  then show ?case by (simp add: seeded_def write_property_tables)
next
  case (reachable_invoke_action s name args kwargs)
  then show ?case by (simp add: seeded_def invoke_action_tables)
next
  case (reachable_emit_event s name payload)
  then show ?case by (simp add: seeded_def emit_event_tables)
next
  case (reachable_set_action_handler s h action_name)
  then show ?case by (simp add: set_action_handler_def set_handler_for_seeded)
next
  case (reachable_set_property_read_handler s h property_name)
  then show ?case by (simp add: set_property_read_handler_def set_handler_for_seeded)
next
  case (reachable_set_property_write_handler s h property_name)
  then show ?case by (simp add: set_property_write_handler_def set_handler_for_seeded)
qed (simp_all add: seeded_def add_remove_tables)

text \<open>
  Claim C3. The handler kinds are the three of the spec, which are the three the
  constructor seeds and the only ones the methods of the class resolve or set:
  \<open>RETRIEVE_PROPERTY\<close>, \<open>UPDATE_PROPERTY\<close> and \<open>INVOKE_ACTION\<close> (the key
  \<open>OBSERVE\<close> of \<^verbatim>\<open>HandlerKeys\<close> is declared and never used). For each of them, in
  every state the object can reach and for every interaction \<open>i\<close>: a global handler
  \<open>g\<close> and a table \<open>d\<close> of overrides exist, resolving the handler for \<open>i\<close> does not
  raise and returns the override \<open>d i\<close> when there is one and \<open>g\<close> otherwise; and
  after a handler \<open>H\<close> has been set for \<open>i\<close>, resolving the handler for \<open>i\<close>
  returns \<open>H\<close>.
\<close>

theorem get_handler_resolution:
  assumes "reachable self"
    and "handler_type \<in> {RETRIEVE_PROPERTY, UPDATE_PROPERTY, INVOKE_ACTION}"
  shows "(\<exists>g d. handlers_global self handler_type = Some g
            \<and> handlers self handler_type = Some d
            \<and> get_handler self handler_type (Some i)
                 = Inr (case d i of Some h \<Rightarrow> h | None \<Rightarrow> g))
       \<and> get_handler (set_handler self handler_type H (Some i)) handler_type (Some i) = Inr H"
proof -
  from assms(2) have "handler_type \<noteq> OBSERVE" by auto
  with assms(1) have "seeded self handler_type" by (rule reachable_seeded)
  then obtain g d where g: "handlers_global self handler_type = Some g"
    and d: "handlers self handler_type = Some d"
    by (auto simp: seeded_def)
  have "get_handler self handler_type (Some i) = Inr (case d i of Some h \<Rightarrow> h | None \<Rightarrow> g)"
    using g d by (simp add: get_handler_def split: option.splits)
  moreover have "get_handler (set_handler self handler_type H (Some i)) handler_type (Some i) = Inr H"
    using d by (simp add: get_handler_def set_handler_def)
  ultimately show ?thesis using g d by simp
qed

theorem get_handler_resolution_witness:
  "reachable (ExposedThing_init [Property ''temp'' PyNone PyNone PyNone True True])
   \<and> RETRIEVE_PROPERTY \<in> {RETRIEVE_PROPERTY, UPDATE_PROPERTY, INVOKE_ACTION}
   \<and> (\<exists>g d. handlers_global (ExposedThing_init [Property ''temp'' PyNone PyNone PyNone True True])
                RETRIEVE_PROPERTY = Some g
            \<and> handlers (ExposedThing_init [Property ''temp'' PyNone PyNone PyNone True True])
                RETRIEVE_PROPERTY = Some d
            \<and> get_handler (ExposedThing_init [Property ''temp'' PyNone PyNone PyNone True True])
                RETRIEVE_PROPERTY (Some (Property ''temp'' PyNone PyNone PyNone True True))
                 = Inr (case d (Property ''temp'' PyNone PyNone PyNone True True) of
                          Some h \<Rightarrow> h | None \<Rightarrow> g))
   \<and> get_handler
        (set_handler (ExposedThing_init [Property ''temp'' PyNone PyNone PyNone True True])
           RETRIEVE_PROPERTY (User_handler (\<lambda>args kwargs. Inr (PyInt 7)))
           (Some (Property ''temp'' PyNone PyNone PyNone True True)))
        RETRIEVE_PROPERTY (Some (Property ''temp'' PyNone PyNone PyNone True True))
      = Inr (User_handler (\<lambda>args kwargs. Inr (PyInt 7)))"
  using get_handler_resolution [OF reachable_init, of RETRIEVE_PROPERTY
      "[Property ''temp'' PyNone PyNone PyNone True True]"
      "Property ''temp'' PyNone PyNone PyNone True True"
      "User_handler (\<lambda>args kwargs. Inr (PyInt 7))"]
    reachable_init [of "[Property ''temp'' PyNone PyNone PyNone True True]"]
  by simp

subsection \<open>Invoking an action that has no handler\<close>

text \<open>
  Claim C4. Let \<open>A\<close> name an action for which no handler is set, the global
  invoke-action handler being the default one. Then \<open>invoke_action(A)\<close> fails with the
  \<^verbatim>\<open>Exception\<close> "Undefined action handler" (the spec's UndefinedActionHandlerError) and
  leaves the object as it was, so no event is published. With arguments the call fails
  as well and publishes nothing (the default handler takes none, and the call of it
  raises \<^verbatim>\<open>TypeError\<close>).
\<close>

theorem invoke_action_undefined_handler:
  assumes "Thing_find_interaction (thing self) A = Some (Action n l d out inp)"
    and "handlers self INVOKE_ACTION = Some per_action"
    and "per_action (Action n l d out inp) = None"
    and "handlers_global self INVOKE_ACTION = Some Default_invoke_action_handler"
  shows "invoke_action self A [] [] = (Inl (Exception ''Undefined action handler''), self)
       \<and> (\<exists>e. invoke_action self A args kwargs = (Inl e, self))"
  using assms
  by (auto simp: invoke_action_def find_interaction_def get_handler_def
      default_invoke_action_handler_def split: list.splits)

theorem invoke_action_undefined_handler_witness:
  "invoke_action (ExposedThing_init [Action ''toggle'' PyNone PyNone PyNone PyNone])
      ''toggle'' [] []
     = (Inl (Exception ''Undefined action handler''),
        ExposedThing_init [Action ''toggle'' PyNone PyNone PyNone PyNone])
   \<and> (\<exists>e. invoke_action (ExposedThing_init [Action ''toggle'' PyNone PyNone PyNone PyNone])
          ''toggle'' [PyInt 1] []
        = (Inl e, ExposedThing_init [Action ''toggle'' PyNone PyNone PyNone PyNone]))"
  by (rule invoke_action_undefined_handler [where n = "''toggle''" and l = PyNone
        and d = PyNone and out = PyNone and inp = PyNone and per_action = Map.empty])
     (simp_all add: ExposedThing_init_def Thing_find_interaction_def)

subsection \<open>The event of a write\<close>

text \<open>
  Claim C5. Let \<open>P\<close> name a writable property, \<open>h\<close> the update handler resolved for
  it and \<open>outcome\<close> the outcome of the call \<open>h(P, v)\<close>. The handler publishes nothing.
  When its Future resolves, \<open>write_property(P, v)\<close> resolves and the events stream
  grows by exactly one event, the property change with the payload name \<open>P\<close> and value
  \<open>v\<close>, published on the object the handler left. When the handler fails with \<open>e\<close>,
  \<open>write_property(P, v)\<close> fails with \<open>e\<close> and the events stream is as before.
\<close>

theorem write_property_publishes:
  assumes found: "Thing_find_interaction (thing self) P = Some (Property n l d vt True ob)"
    and resolved: "get_handler self UPDATE_PROPERTY (Some (Property n l d vt True ob)) = Inr h"
    and called: "call_handler h [PyStr P, v] [] self = (outcome, self1)"
  shows "events_stream self1 = events_stream self
       \<and> (case outcome of
            Inr x \<Rightarrow>
              write_property self P v
                = (Inr PyNone,
                   on_next self1 (PropertyChangeEmittedEvent \<lparr>pc_name = P, pc_value = v\<rparr>))
              \<and> events_stream (snd (write_property self P v))
                  = events_stream self
                    @ [PropertyChangeEmittedEvent \<lparr>pc_name = P, pc_value = v\<rparr>]
          | Inl e \<Rightarrow>
              write_property self P v = (Inl e, self1)
              \<and> events_stream (snd (write_property self P v)) = events_stream self)"
proof -
  have ev: "events_stream self1 = events_stream self"
    using called by (rule call_handler_events)
  show ?thesis
  proof (cases outcome)
    case (Inl e)
    with found resolved called ev show ?thesis
      by (simp add: write_property_def find_interaction_def)
  next
    case (Inr x)
    with found resolved called ev show ?thesis
      by (simp add: write_property_def find_interaction_def on_next_def)
  qed
qed

theorem write_property_publishes_witness:
  "write_property (ExposedThing_init [Property ''temp'' PyNone PyNone PyNone True True])
        ''temp'' (PyInt 20)
     = (Inr PyNone,
        on_next (set_property_value
                   (ExposedThing_init [Property ''temp'' PyNone PyNone PyNone True True])
                   (Property ''temp'' PyNone PyNone PyNone True True) (PyInt 20))
          (PropertyChangeEmittedEvent \<lparr>pc_name = ''temp'', pc_value = PyInt 20\<rparr>))
   \<and> events_stream
        (snd (write_property (ExposedThing_init [Property ''temp'' PyNone PyNone PyNone True True])
           ''temp'' (PyInt 20)))
     = [PropertyChangeEmittedEvent \<lparr>pc_name = ''temp'', pc_value = PyInt 20\<rparr>]
   \<and> fst (write_property
        (set_handler (ExposedThing_init [Property ''temp'' PyNone PyNone PyNone True True])
           UPDATE_PROPERTY (User_handler (\<lambda>args kwargs. Inl (OtherError ''IOError'' ''bus'')))
           None)
        ''temp'' (PyInt 20)) = Inl (OtherError ''IOError'' ''bus'')
   \<and> events_stream (snd (write_property
        (set_handler (ExposedThing_init [Property ''temp'' PyNone PyNone PyNone True True])
           UPDATE_PROPERTY (User_handler (\<lambda>args kwargs. Inl (OtherError ''IOError'' ''bus'')))
           None)
        ''temp'' (PyInt 20))) = []"
proof -
  let ?p = "Property ''temp'' PyNone PyNone PyNone True True"
  let ?s = "ExposedThing_init [?p]"
  let ?f = "\<lambda>(args :: pyval list) (kwargs :: (string \<times> pyval) list).
              (Inl (OtherError ''IOError'' ''bus'') :: exn + pyval)"
  let ?s2 = "set_handler ?s UPDATE_PROPERTY (User_handler ?f) None"
  have 1: "Thing_find_interaction (thing ?s) ''temp'' = Some ?p"
    by (simp add: ExposedThing_init_def Thing_find_interaction_def)
  have 2: "get_handler ?s UPDATE_PROPERTY (Some ?p) = Inr Default_update_property_handler"
    by (simp add: ExposedThing_init_def get_handler_def)
  have 3: "call_handler Default_update_property_handler [PyStr ''temp'', PyInt 20] [] ?s
             = (Inr PyNone, set_property_value ?s ?p (PyInt 20))"
    using 1 by (simp add: default_update_property_handler_def find_interaction_def)
  have 4: "events_stream ?s = []"
    by (simp add: ExposedThing_init_def)
  have 5: "Thing_find_interaction (thing ?s2) ''temp'' = Some ?p"
    by (simp add: ExposedThing_init_def Thing_find_interaction_def set_handler_def)
  have 6: "get_handler ?s2 UPDATE_PROPERTY (Some ?p) = Inr (User_handler ?f)"
    by (simp add: ExposedThing_init_def get_handler_def set_handler_def)
  have 7: "call_handler (User_handler ?f) [PyStr ''temp'', PyInt 20] [] ?s2
             = (Inl (OtherError ''IOError'' ''bus''), ?s2)"
    by simp
  have 8: "events_stream ?s2 = []"
    by (simp add: ExposedThing_init_def set_handler_def)
  show ?thesis
    using write_property_publishes [OF 1 2 3] write_property_publishes [OF 5 6 7] 4 8
    by (simp add: on_next_def set_property_value_def)
qed

subsection \<open>Reading an unknown name, and a property that has no value\<close>

text \<open>
  Claim C6. \<open>read_property(name)\<close> fails with the \<^verbatim>\<open>ValueError\<close> "Interaction not
  found" (the spec's NotFoundError) when the Thing has no interaction of that name.
  When the name is that of a property for which no value is stored, and the retrieve
  handler resolved for it is the default one, \<open>read_property(name)\<close> resolves to
  \<^verbatim>\<open>None\<close>.
\<close>

theorem read_property_unknown_or_unset:
  "(Thing_find_interaction (thing self) name = None \<longrightarrow>
      read_property self name = (Inl (ValueError (''Interaction not found: '' @ name)), self))
   \<and> (Thing_find_interaction (thing self) name = Some (Property n l d vt w ob)
       \<and> interaction_states self (Property n l d vt w ob) = None
       \<and> get_handler self RETRIEVE_PROPERTY (Some (Property n l d vt w ob))
            = Inr Default_retrieve_property_handler \<longrightarrow>
      read_property self name = (Inr PyNone, self))"
  by (simp add: read_property_def find_interaction_def default_retrieve_property_handler_def
      get_property_value_def)

theorem read_property_unknown_or_unset_witness:
  "read_property (ExposedThing_init [Property ''temp'' PyNone PyNone PyNone True True]) ''humidity''
     = (Inl (ValueError ''Interaction not found: humidity''),
        ExposedThing_init [Property ''temp'' PyNone PyNone PyNone True True])
   \<and> read_property (ExposedThing_init [Property ''temp'' PyNone PyNone PyNone True True]) ''temp''
     = (Inr PyNone, ExposedThing_init [Property ''temp'' PyNone PyNone PyNone True True])"
proof -
  let ?p = "Property ''temp'' PyNone PyNone PyNone True True"
  let ?s = "ExposedThing_init [?p]"
  have 1: "Thing_find_interaction (thing ?s) ''humidity'' = None"
    by (simp add: ExposedThing_init_def Thing_find_interaction_def)
  have 2: "Thing_find_interaction (thing ?s) ''temp'' = Some ?p"
    by (simp add: ExposedThing_init_def Thing_find_interaction_def)
  have 3: "interaction_states ?s ?p = None"
    by (simp add: ExposedThing_init_def)
  have 4: "get_handler ?s RETRIEVE_PROPERTY (Some ?p) = Inr Default_retrieve_property_handler"
    by (simp add: ExposedThing_init_def get_handler_def)
  show ?thesis
    using read_property_unknown_or_unset [of ?s "''humidity''"]
      read_property_unknown_or_unset [of ?s "''temp''" "''temp''" PyNone PyNone PyNone True True]
      1 2 3 4
    by simp
qed

subsection \<open>Adding a property\<close>

text \<open>
  Claim C7. \<open>add_property(name, init)\<close> publishes exactly one event, the description
  change with change type \<open>PROPERTY\<close>, method \<open>ADD\<close>, the given name, the serialized
  init dictionary as data and the description of the Thing as it is after the
  addition. It stores the initial value of the init dictionary for the new property:
  when the retrieve handler resolved for the new property is the default one,
  \<open>read_property(name)\<close> on the object it leaves resolves to that value.
\<close>

theorem add_property_seeds_and_publishes:
  "events_stream (add_property self name property_init)
     = events_stream self
       @ [ThingDescriptionChangeEmittedEvent
            \<lparr>td_change_type = PROPERTY, td_method = ADD, td_name = name,
             td_data = Some (PropertyInit_to_dict property_init),
             td_description =
               Some (ThingDescription_from_thing (thing (add_property self name property_init)))\<rparr>]
   \<and> (get_handler (add_property self name property_init) RETRIEVE_PROPERTY
         (Some (Property name (pi_label property_init) (pi_description property_init)
                  (pi_value_type property_init) (pi_writable property_init)
                  (pi_observable property_init)))
         = Inr Default_retrieve_property_handler \<longrightarrow>
       read_property (add_property self name property_init) name
         = (Inr (pi_value property_init), add_property self name property_init))"
proof -
  let ?p = "Property name (pi_label property_init) (pi_description property_init)
              (pi_value_type property_init) (pi_writable property_init)
              (pi_observable property_init)"
  let ?s = "add_property self name property_init"
  have t: "thing ?s = Thing_add_interaction (thing self) ?p"
    by (simp add: add_property_def on_next_def set_property_value_def Let_def)
  have "Thing_find_interaction (Thing_add_interaction (thing self) ?p) (interaction_name ?p)
          = Some ?p"
    by (rule find_after_add)
  with t have f: "Thing_find_interaction (thing ?s) name = Some ?p" by simp
  have st: "interaction_states ?s ?p = Some (pi_value property_init)"
    by (simp add: add_property_def on_next_def set_property_value_def Let_def)
  have ev: "events_stream ?s = events_stream self
       @ [ThingDescriptionChangeEmittedEvent
            \<lparr>td_change_type = PROPERTY, td_method = ADD, td_name = name,
             td_data = Some (PropertyInit_to_dict property_init),
             td_description = Some (ThingDescription_from_thing (thing ?s))\<rparr>]"
    by (simp add: add_property_def on_next_def set_property_value_def Let_def)
  have rd: "read_property ?s name = (Inr (pi_value property_init), ?s)"
    if "get_handler ?s RETRIEVE_PROPERTY (Some ?p) = Inr Default_retrieve_property_handler"
    using that f st
    by (simp add: read_property_def find_interaction_def
        default_retrieve_property_handler_def get_property_value_def)
  from ev rd show ?thesis by blast
qed

theorem add_property_seeds_and_publishes_witness:
  "events_stream (add_property (ExposedThing_init []) ''temp''
       \<lparr>pi_label = PyNone, pi_description = PyDict [(''type'', PyStr ''number'')],
        pi_value_type = PyNone, pi_writable = True, pi_observable = True,
        pi_value = PyInt 20\<rparr>)
     = [ThingDescriptionChangeEmittedEvent
          \<lparr>td_change_type = PROPERTY, td_method = ADD, td_name = ''temp'',
           td_data = Some (PropertyInit_to_dict
             \<lparr>pi_label = PyNone, pi_description = PyDict [(''type'', PyStr ''number'')],
              pi_value_type = PyNone, pi_writable = True, pi_observable = True,
              pi_value = PyInt 20\<rparr>),
           td_description = Some (ThingDescription_from_thing
             [Property ''temp'' PyNone (PyDict [(''type'', PyStr ''number'')]) PyNone True True])\<rparr>]
   \<and> fst (read_property (add_property (ExposedThing_init []) ''temp''
       \<lparr>pi_label = PyNone, pi_description = PyDict [(''type'', PyStr ''number'')],
        pi_value_type = PyNone, pi_writable = True, pi_observable = True,
        pi_value = PyInt 20\<rparr>) ''temp'') = Inr (PyInt 20)"
proof -
  let ?i = "\<lparr>pi_label = PyNone, pi_description = PyDict [(''type'', PyStr ''number'')],
        pi_value_type = PyNone, pi_writable = True, pi_observable = True,
        pi_value = PyInt 20\<rparr>"
  let ?s = "add_property (ExposedThing_init []) ''temp'' ?i"
  have h: "get_handler ?s RETRIEVE_PROPERTY
         (Some (Property ''temp'' (pi_label ?i) (pi_description ?i)
                  (pi_value_type ?i) (pi_writable ?i) (pi_observable ?i)))
         = Inr Default_retrieve_property_handler"
    by (simp add: add_property_def on_next_def set_property_value_def Let_def
        ExposedThing_init_def get_handler_def)
  have t: "thing ?s = [Property ''temp'' PyNone (PyDict [(''type'', PyStr ''number'')]) PyNone True True]"
    by (simp add: add_property_def on_next_def set_property_value_def Let_def
        ExposedThing_init_def Thing_add_interaction_def)
  have e: "events_stream (ExposedThing_init []) = []"
    by (simp add: ExposedThing_init_def)
  show ?thesis
    using add_property_seeds_and_publishes [of "ExposedThing_init []" "''temp''" ?i] h t e
    by simp
qed

subsection \<open>Subscribing to the changes of a property\<close>

text \<open>
  Claim C8, as stated, fails when the name is that of an interaction that is not a
  property: no property of that name exists, the lookup succeeds, and the method does
  not answer with "Unknown property" (it reads the attribute \<^verbatim>\<open>observable\<close> of what it
  found).
\<close>

theorem on_property_change_action_counterexample:
  "Thing_find_interaction
      (thing (ExposedThing_init [Action ''toggle'' PyNone PyNone PyNone PyNone])) ''toggle''
     = Some (Action ''toggle'' PyNone PyNone PyNone PyNone)
   \<and> on_property_change (ExposedThing_init [Action ''toggle'' PyNone PyNone PyNone PyNone])
        ''toggle''
     = Inl (AttributeError ''observable'')"
  by (simp add: on_property_change_def find_interaction_def ExposedThing_init_def
      Thing_find_interaction_def)

text \<open>
  Claim C8, amended. \<open>on_property_change(name)\<close> answers with an Observable that
  fails every subscription with the \<^verbatim>\<open>Exception\<close> "Unknown property" (the spec's
  UnknownPropertyError) when the Thing has no interaction of that name, and with
  "Property is not observable" (NotObservableError) when the name is that of a property
  whose observable flag is false. When the name is that of a property whose
  observable flag is true, it answers with the events stream under a filter that
  accepts exactly the events whose name is "propertychange" and whose payload name is
  the requested name.
\<close>

theorem on_property_change_subscription:
  "(Thing_find_interaction (thing self) name = None \<longrightarrow>
      on_property_change self name = Inr (Observable_throw (Exception ''Unknown property'')))
   \<and> (Thing_find_interaction (thing self) name = Some (Property n l d vt w False) \<longrightarrow>
      on_property_change self name
        = Inr (Observable_throw (Exception ''Property is not observable'')))
   \<and> (Thing_find_interaction (thing self) name = Some (Property n l d vt w True) \<longrightarrow>
      on_property_change self name = Inr (Events_stream_filter (property_change_filter name))
      \<and> (\<forall>item. accepts (property_change_filter name) item
            \<longleftrightarrow> event_name item = ''propertychange''
                \<and> event_data_name item = Inr (PyStr name)))"
  by (auto simp: on_property_change_def find_interaction_def accepts_def
      property_change_filter_def PROPERTY_CHANGE_def split: sum.splits)

theorem on_property_change_subscription_witness:
  "on_property_change
      (ExposedThing_init [Property ''temp'' PyNone PyNone PyNone True True,
                          Property ''id'' PyNone PyNone PyNone False False]) ''humidity''
     = Inr (Observable_throw (Exception ''Unknown property''))
   \<and> on_property_change
      (ExposedThing_init [Property ''temp'' PyNone PyNone PyNone True True,
                          Property ''id'' PyNone PyNone PyNone False False]) ''id''
     = Inr (Observable_throw (Exception ''Property is not observable''))
   \<and> on_property_change
      (ExposedThing_init [Property ''temp'' PyNone PyNone PyNone True True,
                          Property ''id'' PyNone PyNone PyNone False False]) ''temp''
     = Inr (Events_stream_filter (property_change_filter ''temp''))
   \<and> accepts (property_change_filter ''temp'')
        (PropertyChangeEmittedEvent \<lparr>pc_name = ''temp'', pc_value = PyInt 20\<rparr>)
   \<and> \<not> accepts (property_change_filter ''temp'')
        (PropertyChangeEmittedEvent \<lparr>pc_name = ''id'', pc_value = PyInt 20\<rparr>)"
proof -
  let ?s = "ExposedThing_init [Property ''temp'' PyNone PyNone PyNone True True,
                          Property ''id'' PyNone PyNone PyNone False False]"
  have 1: "Thing_find_interaction (thing ?s) ''humidity'' = None"
    by (simp add: ExposedThing_init_def Thing_find_interaction_def)
  have 2: "Thing_find_interaction (thing ?s) ''id''
             = Some (Property ''id'' PyNone PyNone PyNone False False)"
    by (simp add: ExposedThing_init_def Thing_find_interaction_def)
  have 3: "Thing_find_interaction (thing ?s) ''temp''
             = Some (Property ''temp'' PyNone PyNone PyNone True True)"
    by (simp add: ExposedThing_init_def Thing_find_interaction_def)
  show ?thesis
    using on_property_change_subscription [of ?s "''humidity''"]
      on_property_change_subscription [of ?s "''id''" "''id''" PyNone PyNone PyNone False]
      on_property_change_subscription [of ?s "''temp''" "''temp''" PyNone PyNone PyNone True]
      1 2 3
    by (simp add: PROPERTY_CHANGE_def)
qed

subsection \<open>Subscribing to an event\<close>

text \<open>
  Claim C9. \<open>on_event(name)\<close> answers with an Observable that fails every
  subscription with the \<^verbatim>\<open>Exception\<close> "Unknown event" (the spec's UnknownEventError)
  exactly when the Thing has no interaction of that name; otherwise it answers with the
  events stream under the filter on the event name. After \<open>remove_event(name)\<close>,
  \<open>on_event(name)\<close> answers with the failing Observable.
\<close>

theorem on_event_unknown_event:
  "(on_event self name = Inr (Observable_throw (Exception ''Unknown event''))
      \<longleftrightarrow> Thing_find_interaction (thing self) name = None)
   \<and> (Thing_find_interaction (thing self) name \<noteq> None \<longrightarrow>
        on_event self name = Inr (Events_stream_filter (event_filter name)))
   \<and> on_event (remove_event self name) name
        = Inr (Observable_throw (Exception ''Unknown event''))"
proof -
  have "thing (remove_event self name) = Thing_remove_interaction (thing self) name"
    by (simp add: remove_event_def on_next_def Let_def)
  then have "Thing_find_interaction (thing (remove_event self name)) name = None"
    by (simp add: find_after_remove)
  then have "on_event (remove_event self name) name
        = Inr (Observable_throw (Exception ''Unknown event''))"
    by (simp add: on_event_def find_interaction_def)
  then show ?thesis
    by (auto simp: on_event_def find_interaction_def split: option.splits)
qed

theorem on_event_unknown_event_witness:
  "on_event (ExposedThing_init [Event ''motion'' PyNone PyNone PyNone]) ''motion''
     = Inr (Events_stream_filter (event_filter ''motion''))
   \<and> on_event (ExposedThing_init [Event ''motion'' PyNone PyNone PyNone]) ''smoke''
     = Inr (Observable_throw (Exception ''Unknown event''))
   \<and> on_event (remove_event (ExposedThing_init [Event ''motion'' PyNone PyNone PyNone])
        ''motion'') ''motion''
     = Inr (Observable_throw (Exception ''Unknown event''))"
proof -
  let ?s = "ExposedThing_init [Event ''motion'' PyNone PyNone PyNone]"
  have 1: "Thing_find_interaction (thing ?s) ''motion''
             = Some (Event ''motion'' PyNone PyNone PyNone)"
    by (simp add: ExposedThing_init_def Thing_find_interaction_def)
  have 2: "Thing_find_interaction (thing ?s) ''smoke'' = None"
    by (simp add: ExposedThing_init_def Thing_find_interaction_def)
  show ?thesis
    using on_event_unknown_event [of ?s "''motion''"] on_event_unknown_event [of ?s "''smoke''"]
      1 2
    by simp
qed

subsection \<open>Emitting an event\<close>

text \<open>
  Claim C10. \<open>emit_event(name, payload)\<close> raises \<^verbatim>\<open>ValueError\<close> and leaves the
  object as it was (nothing is published) when the Thing has no interaction of that
  name. When it has one, the call returns and the events stream grows by exactly one
  event, which carries that name and that payload.
\<close>

theorem emit_event_publishes:
  "(Thing_find_interaction (thing self) name = None \<longrightarrow>
      emit_event self name payload = (Inl (ValueError (''Unknown event: '' @ name)), self))
   \<and> (Thing_find_interaction (thing self) name \<noteq> None \<longrightarrow>
      fst (emit_event self name payload) = Inr PyNone
      \<and> snd (emit_event self name payload) = on_next self (EmittedEvent name payload)
      \<and> events_stream (snd (emit_event self name payload))
          = events_stream self @ [EmittedEvent name payload])"
  by (auto simp: emit_event_def on_next_def)

theorem emit_event_publishes_witness:
  "emit_event (ExposedThing_init [Event ''motion'' PyNone PyNone PyNone]) ''smoke'' (PyBool True)
     = (Inl (ValueError ''Unknown event: smoke''),
        ExposedThing_init [Event ''motion'' PyNone PyNone PyNone])
   \<and> fst (emit_event (ExposedThing_init [Event ''motion'' PyNone PyNone PyNone])
            ''motion'' (PyBool True)) = Inr PyNone
   \<and> events_stream
        (snd (emit_event (ExposedThing_init [Event ''motion'' PyNone PyNone PyNone])
                ''motion'' (PyBool True)))
     = [EmittedEvent ''motion'' (PyBool True)]"
proof -
  let ?s = "ExposedThing_init [Event ''motion'' PyNone PyNone PyNone]"
  have 1: "Thing_find_interaction (thing ?s) ''motion''
             = Some (Event ''motion'' PyNone PyNone PyNone)"
    by (simp add: ExposedThing_init_def Thing_find_interaction_def)
  have 2: "Thing_find_interaction (thing ?s) ''smoke'' = None"
    by (simp add: ExposedThing_init_def Thing_find_interaction_def)
  have 3: "events_stream ?s = []"
    by (simp add: ExposedThing_init_def)
  show ?thesis
    using emit_event_publishes [of ?s "''motion''" "PyBool True"]
      emit_event_publishes [of ?s "''smoke''" "PyBool True"] 1 2 3
    by (simp add: on_next_def)
qed


end
